theory Spec2Isabelle
  imports Complex_Main
begin

section \<open>Forward-mode dot product (stan/agrad/fwd/matrix/dot_product.hpp)\<close>

subsection \<open>The differentiable scalar\<close>

text \<open>
  Modelled from the spec: the class template \<open>fvar<T>\<close> of stan/agrad/fvar.hpp is not
  among the sources. The spec gives it as a pair of a value and a derivative; a product
  carries the derivative \<open>a.derivative * b.value + a.value * b.derivative\<close>, and \<open>+=\<close>
  adds values and derivatives. The template parameter \<open>T\<close> is the type variable \<open>'a\<close>;
  the theorems ask of it an addition that is associative and commutative with unit 0,
  and a multiplication (\<open>real\<close>, \<open>int\<close>, and the type \<open>dbl\<close> below): the rounding of
  \<open>double\<close> is not part of the model.
\<close>

record 'a fvar =
  val :: 'a
  deriv :: 'a

definition fvar_times :: "'a::{plus,times} fvar \<Rightarrow> 'a fvar \<Rightarrow> 'a fvar" where
  "fvar_times x1 x2 =
     \<lparr>val = val x1 * val x2, deriv = deriv x1 * val x2 + val x1 * deriv x2\<rparr>"

definition fvar_plus_assign :: "'a::plus fvar \<Rightarrow> 'a fvar \<Rightarrow> 'a fvar" where
  "fvar_plus_assign ret x = \<lparr>val = val ret + val x, deriv = deriv ret + deriv x\<rparr>"

subsection \<open>Failures\<close>

text \<open>
  \<open>ShapeMismatch\<close> is the exception of the validation helpers
  (\<open>validate_vector\<close>, \<open>validate_matching_sizes\<close>); \<open>OutOfRange\<close> is
  \<open>std::out_of_range\<close>, thrown by \<open>std::vector::at\<close>, and stands as well for the
  index assertion of a matrix coefficient read past the end.
\<close>

datatype error = ShapeMismatch | OutOfRange

subsection \<open>Sequences held in \<open>std::vector\<close>\<close>

definition at_v :: "'a list \<Rightarrow> nat \<Rightarrow> error + 'a" where
  "at_v v i = (if i < length v then Inr (v ! i) else Inl OutOfRange)"

text \<open>
  Modelled from the spec: \<open>validate_matching_sizes\<close>
  (stan/math/matrix/validate_matching_sizes.hpp) is not among the sources. The spec asks
  for equal lengths and has the violation signal \<open>ShapeMismatch\<close>. \<open>None\<close> is the
  normal return.
\<close>

definition validate_matching_sizes :: "nat \<Rightarrow> nat \<Rightarrow> error option" where
  "validate_matching_sizes n1 n2 = (if n1 = n2 then None else Some ShapeMismatch)"

text \<open>
  The loop \<open>for (i = 0; i < n; i++) ret += v1.at(i) * v2.at(i)\<close>, started from
  \<open>fvar<T> ret(0,0)\<close>: \<open>dot_product_loop v1 v2 n\<close> is the outcome of its first
  \<open>n\<close> iterations. An exception of \<open>at\<close> (here \<open>at_v\<close>) ends the loop.
\<close>

primrec dot_product_loop ::
  "'a::{zero,plus,times} fvar list \<Rightarrow> 'a fvar list \<Rightarrow> nat \<Rightarrow> error + 'a fvar" where
  "dot_product_loop v1 v2 0 = Inr \<lparr>val = 0, deriv = 0\<rparr>"
| "dot_product_loop v1 v2 (Suc i) =
     (case dot_product_loop v1 v2 i of
        Inl e \<Rightarrow> Inl e
      | Inr ret \<Rightarrow>
          (case at_v v1 i of
             Inl e \<Rightarrow> Inl e
           | Inr a \<Rightarrow>
               (case at_v v2 i of
                  Inl e \<Rightarrow> Inl e
                | Inr b \<Rightarrow> Inr (fvar_plus_assign ret (fvar_times a b)))))"

text \<open>\<open>dot_product(const std::vector<fvar<T> >&, const std::vector<fvar<T> >&)\<close>\<close>

definition dot_product ::
  "'a::{zero,plus,times} fvar list \<Rightarrow> 'a fvar list \<Rightarrow> error + 'a fvar" where
  "dot_product v1 v2 =
     (case validate_matching_sizes (length v1) (length v2) of
        Some e \<Rightarrow> Inl e
      | None \<Rightarrow> dot_product_loop v1 v2 (length v1))"

text \<open>
  \<open>dot_product(const std::vector<fvar<T> >&, const std::vector<fvar<T> >&, size_type&)\<close>:
  no validation, the loop runs to the given length. The type \<open>size_type\<close> is declared
  outside the sources; a length is a count, hence \<open>nat\<close>.
\<close>

definition dot_product_length ::
  "'a::{zero,plus,times} fvar list \<Rightarrow> 'a fvar list \<Rightarrow> nat \<Rightarrow> error + 'a fvar" where
  "dot_product_length v1 v2 len = dot_product_loop v1 v2 len"

subsection \<open>Sequences held in an Eigen matrix\<close>

text \<open>
  \<open>Eigen::Matrix<fvar<T>, R, C>\<close>: the numbers of rows and of columns, and the
  coefficients by their linear index \<open>v(i)\<close>, of which the first \<open>rows * cols\<close> belong
  to the matrix.
\<close>

record 'a matrix =
  rows :: nat
  cols :: nat
  coeff :: "nat \<Rightarrow> 'a"

definition size_m :: "'a matrix \<Rightarrow> nat" where
  "size_m v = rows v * cols v"

definition coeff_at :: "'a matrix \<Rightarrow> nat \<Rightarrow> error + 'a" where
  "coeff_at v i = (if i < size_m v then Inr (coeff v i) else Inl OutOfRange)"

text \<open>
  Modelled from the spec: \<open>validate_vector\<close> (stan/math/matrix/validate_vector.hpp) is
  not among the sources. The spec calls a matrix vector-shaped when it has a single row
  or a single column, and has the violation signal \<open>ShapeMismatch\<close>.
\<close>

definition validate_vector :: "'a matrix \<Rightarrow> error option" where
  "validate_vector v = (if rows v = 1 \<or> cols v = 1 then None else Some ShapeMismatch)"

primrec dot_product_loop_m ::
  "'a::{zero,plus,times} fvar matrix \<Rightarrow> 'a fvar matrix \<Rightarrow> nat \<Rightarrow> error + 'a fvar" where
  "dot_product_loop_m v1 v2 0 = Inr \<lparr>val = 0, deriv = 0\<rparr>"
| "dot_product_loop_m v1 v2 (Suc i) =
     (case dot_product_loop_m v1 v2 i of
        Inl e \<Rightarrow> Inl e
      | Inr ret \<Rightarrow>
          (case coeff_at v1 i of
             Inl e \<Rightarrow> Inl e
           | Inr a \<Rightarrow>
               (case coeff_at v2 i of
                  Inl e \<Rightarrow> Inl e
                | Inr b \<Rightarrow> Inr (fvar_plus_assign ret (fvar_times a b)))))"

text \<open>
  \<open>dot_product(const Eigen::Matrix<fvar<T>,R1,C1>&, const Eigen::Matrix<fvar<T>,R2,C2>&)\<close>:
  the three validations in the order of the source, then the loop to \<open>v1.size()\<close>.
\<close>

definition dot_product_m ::
  "'a::{zero,plus,times} fvar matrix \<Rightarrow> 'a fvar matrix \<Rightarrow> error + 'a fvar" where
  "dot_product_m v1 v2 =
     (case validate_vector v1 of
        Some e \<Rightarrow> Inl e
      | None \<Rightarrow>
          (case validate_vector v2 of
             Some e \<Rightarrow> Inl e
           | None \<Rightarrow>
               (case validate_matching_sizes (size_m v1) (size_m v2) of
                  Some e \<Rightarrow> Inl e
                | None \<Rightarrow> dot_product_loop_m v1 v2 (size_m v1))))"

text \<open>The matrix entry point with an explicit length: both shapes validated, sizes not.\<close>

definition dot_product_length_m ::
  "'a::{zero,plus,times} fvar matrix \<Rightarrow> 'a fvar matrix \<Rightarrow> nat \<Rightarrow> error + 'a fvar" where
  "dot_product_length_m v1 v2 len =
     (case validate_vector v1 of
        Some e \<Rightarrow> Inl e
      | None \<Rightarrow>
          (case validate_vector v2 of
             Some e \<Rightarrow> Inl e
           | None \<Rightarrow> dot_product_loop_m v1 v2 len))"

text \<open>
  The first \<open>len\<close> coefficients of a vector-shaped matrix, in the shape of the matrix
  (a row stays a row, a column a column).
\<close>

definition head_m :: "'a matrix \<Rightarrow> nat \<Rightarrow> 'a matrix" where
  "head_m v len =
     (if rows v = 1 then \<lparr>rows = 1, cols = len, coeff = coeff v\<rparr>
      else \<lparr>rows = len, cols = 1, coeff = coeff v\<rparr>)"

section \<open>The Gumbel distribution (stan/prob/distributions/univariate/continuous/gumbel.hpp)\<close>

subsection \<open>Values of type \<open>double\<close>\<close>

text \<open>
  The validation of the distribution functions tells NaN, the infinities and the finite
  numbers apart, so a \<open>double\<close> is one of the four. Finite arithmetic is exact (on
  \<open>real\<close>): rounding, overflow and underflow are not modelled. NaN and the infinities
  follow the rules of IEEE 754 (\<open>inf - inf\<close>, \<open>0 * inf\<close> and \<open>inf / inf\<close> are NaN).
  The sign of zero is not kept: \<open>a / 0\<close> has the sign of \<open>a\<close>, as for \<open>+0.0\<close>.
\<close>

datatype dbl = NaN | NInf | Fin real | PInf

definition inf_of_sign :: "real \<Rightarrow> dbl" where
  "inf_of_sign s = (if s = 0 then NaN else if 0 < s then PInf else NInf)"

fun sign_of :: "dbl \<Rightarrow> real" where
  "sign_of NaN = 0"
| "sign_of NInf = - 1"
| "sign_of (Fin a) = sgn a"
| "sign_of PInf = 1"

instantiation dbl :: "{comm_monoid_add,comm_monoid_mult,uminus,minus,inverse}"
begin

definition zero_dbl :: dbl where
  "zero_dbl = Fin 0"

definition one_dbl :: dbl where
  "one_dbl = Fin 1"

fun uminus_dbl :: "dbl \<Rightarrow> dbl" where
  "uminus_dbl NaN = NaN"
| "uminus_dbl NInf = PInf"
| "uminus_dbl (Fin a) = Fin (- a)"
| "uminus_dbl PInf = NInf"

fun plus_dbl :: "dbl \<Rightarrow> dbl \<Rightarrow> dbl" where
  "plus_dbl (Fin a) (Fin b) = Fin (a + b)"
| "plus_dbl NaN y = NaN"
| "plus_dbl x NaN = NaN"
| "plus_dbl PInf NInf = NaN"
| "plus_dbl NInf PInf = NaN"
| "plus_dbl PInf y = PInf"
| "plus_dbl x PInf = PInf"
| "plus_dbl NInf y = NInf"
| "plus_dbl x NInf = NInf"

definition minus_dbl :: "dbl \<Rightarrow> dbl \<Rightarrow> dbl" where
  "minus_dbl x y = x + (- y)"

fun times_dbl :: "dbl \<Rightarrow> dbl \<Rightarrow> dbl" where
  "times_dbl (Fin a) (Fin b) = Fin (a * b)"
| "times_dbl NaN y = NaN"
| "times_dbl x NaN = NaN"
| "times_dbl x y = inf_of_sign (sign_of x * sign_of y)"

fun divide_dbl :: "dbl \<Rightarrow> dbl \<Rightarrow> dbl" where
  "divide_dbl NaN y = NaN"
| "divide_dbl x NaN = NaN"
| "divide_dbl (Fin a) (Fin b) = (if b = 0 then inf_of_sign a else Fin (a / b))"
| "divide_dbl (Fin a) y = Fin 0"
| "divide_dbl x (Fin b) = (if b < 0 then - x else x)"
| "divide_dbl x y = NaN"

definition inverse_dbl :: "dbl \<Rightarrow> dbl" where
  "inverse_dbl x = divide (Fin 1) x"

instance
proof
  fix u v w :: dbl
  show "1 * u = u"
    by (cases u) (simp_all add: one_dbl_def inf_of_sign_def)
  show "0 + u = u"
    by (cases u) (simp_all add: zero_dbl_def)
  show "u + v = v + u"
    by (cases u; cases v) simp_all
  show "u * v = v * u"
    by (cases u; cases v) (simp_all add: mult.commute)
  show "u + v + w = u + (v + w)"
    by (cases u; cases v; cases w) simp_all
  show "u * v * w = u * (v * w)"
    by (cases u; cases v; cases w)
       (auto simp: inf_of_sign_def sgn_real_def mult_less_0_iff zero_less_mult_iff)
qed

end

text \<open>\<open>std::exp\<close> and \<open>std::log\<close>.\<close>

fun exp_dbl :: "dbl \<Rightarrow> dbl" where
  "exp_dbl NaN = NaN"
| "exp_dbl NInf = Fin 0"
| "exp_dbl (Fin a) = Fin (exp a)"
| "exp_dbl PInf = PInf"

fun log_dbl :: "dbl \<Rightarrow> dbl" where
  "log_dbl NaN = NaN"
| "log_dbl NInf = NaN"
| "log_dbl (Fin a) = (if a < 0 then NaN else if a = 0 then NInf else Fin (ln a))"
| "log_dbl PInf = PInf"

fun is_nan :: "dbl \<Rightarrow> bool" where
  "is_nan NaN = True"
| "is_nan x = False"

fun is_finite :: "dbl \<Rightarrow> bool" where
  "is_finite (Fin a) = True"
| "is_finite x = False"

text \<open>The comparison \<open>x > 0\<close>, false of NaN.\<close>

fun positive :: "dbl \<Rightarrow> bool" where
  "positive (Fin a) = (0 < a)"
| "positive PInf = True"
| "positive x = False"

subsection \<open>Arguments: scalars and sequences, constants and variables\<close>

text \<open>
  Modelled from the spec: the traits \<open>is_vector\<close>, \<open>is_constant_struct\<close>,
  \<open>value_of\<close>, \<open>stan::length\<close> and \<open>max_size\<close> (stan/meta/traits.hpp) are not among
  the sources. By the spec an argument (of type \<open>T_y\<close>, \<open>T_loc\<close> or \<open>T_scale\<close>) is a
  scalar or a sequence of numbers that are all constants (\<open>double\<close>) or all
  differentiable. An argument holds the \<open>value_of\<close> each of its numbers; its length
  is 1 for a scalar and the size of a sequence, and the broadcast length \<open>max_size\<close> is
  the maximum of the lengths.
\<close>

datatype operand =
  Scalar (is_constant_struct: bool) dbl
| Vector (is_constant_struct: bool) "dbl list"

fun is_vector :: "operand \<Rightarrow> bool" where
  "is_vector (Scalar c x) = False"
| "is_vector (Vector c xs) = True"

fun length_op :: "operand \<Rightarrow> nat" where
  "length_op (Scalar c x) = 1"
| "length_op (Vector c xs) = length xs"

fun elements :: "operand \<Rightarrow> dbl list" where
  "elements (Scalar c x) = [x]"
| "elements (Vector c xs) = xs"

definition max_size :: "operand \<Rightarrow> operand \<Rightarrow> operand \<Rightarrow> nat" where
  "max_size x1 x2 x3 = max (length_op x1) (max (length_op x2) (length_op x3))"

text \<open>
  Modelled from the spec: \<open>VectorView\<close> (stan/meta/traits.hpp) is not among the sources.
  The spec's shape adapter returns the one scalar at every index, and \<open>sequence[index]\<close>
  of a sequence. The functions below read a sequence only at indices that the
  validation has put within its length.
\<close>

fun vector_view :: "operand \<Rightarrow> nat \<Rightarrow> dbl" where
  "vector_view (Scalar c x) n = x"
| "vector_view (Vector c xs) n = xs ! n"

text \<open>
  Modelled from the spec: \<open>DoubleVectorView\<close> and the partial buffers \<open>d_x1\<close>,
  \<open>d_x2\<close>, \<open>d_x3\<close> of \<open>OperandsAndPartials\<close> (stan/agrad) are not among the sources.
  A buffer made for an argument has the argument's length; index \<open>n\<close> addresses element
  \<open>n\<close> of the buffer of a sequence and the single element of the buffer of a scalar.
\<close>

definition slot :: "operand \<Rightarrow> nat \<Rightarrow> nat" where
  "slot x n = (if is_vector x then n else 0)"

text \<open>
  Modelled from the spec: \<open>include_summand\<close> (stan/prob/traits.hpp) is not among the
  sources. A term is left out only in proportional-only mode, and only when none of the
  arguments it depends on is differentiable. The list holds \<open>is_constant_struct\<close> of
  these arguments.
\<close>

definition include_summand :: "bool \<Rightarrow> bool list \<Rightarrow> bool" where
  "include_summand propto constants = (\<not> propto \<or> list_ex (\<lambda>c. \<not> c) constants)"

subsection \<open>The validation collaborator\<close>

text \<open>
  Modelled from the spec: \<open>check_not_nan\<close>, \<open>check_finite\<close>, \<open>check_positive\<close> and
  \<open>check_consistent_sizes\<close> (stan/math/error_handling.hpp) and the policy classes are
  not among the sources. By the spec a check takes the values and an output slot and
  returns a success flag; a call whose check fails returns the value computed so far, so
  the slot comes back with the content it had. A check of a sequence holds of
  every element. Sizes are consistent when every argument is a scalar (of length 1) or a
  sequence whose length is the common maximum. The doc comment of \<open>gumbel_log\<close> names
  a thrown \<open>std::domain_error\<close> for a scale that is not positive; whether a failing
  check throws is for the policy to decide, and the spec has the check return.
\<close>

definition check_not_nan :: "operand \<Rightarrow> dbl \<Rightarrow> bool \<times> dbl" where
  "check_not_nan x result = (list_all (\<lambda>v. \<not> is_nan v) (elements x), result)"

definition check_finite :: "operand \<Rightarrow> dbl \<Rightarrow> bool \<times> dbl" where
  "check_finite x result = (list_all is_finite (elements x), result)"

definition check_positive :: "operand \<Rightarrow> dbl \<Rightarrow> bool \<times> dbl" where
  "check_positive x result = (list_all positive (elements x), result)"

definition check_consistent_size :: "nat \<Rightarrow> operand \<Rightarrow> bool" where
  "check_consistent_size expected_size x = (\<not> is_vector x \<or> length_op x = expected_size)"

definition check_consistent_sizes ::
  "operand \<Rightarrow> operand \<Rightarrow> operand \<Rightarrow> dbl \<Rightarrow> bool \<times> dbl" where
  "check_consistent_sizes x1 x2 x3 result =
     (check_consistent_size (max_size x1 x2 x3) x1
        \<and> check_consistent_size (max_size x1 x2 x3) x2
        \<and> check_consistent_size (max_size x1 x2 x3) x3, result)"

subsection \<open>\<open>gumbel_log\<close>\<close>

text \<open>
  The value a call returns (\<open>return_type<T_y,T_loc,T_scale>::type\<close>): a number and, for
  each differentiable argument, its buffer of partial derivatives. During the loop the
  same record is the state: \<open>logp\<close> and the buffers of \<open>operands_and_partials\<close>,
  which \<open>to_var(logp)\<close> returns together. A constant (\<open>return 0.0\<close>, \<open>return logp\<close>)
  has no partial derivatives.
\<close>

record result =
  logp :: dbl
  d_x1 :: "dbl list"
  d_x2 :: "dbl list"
  d_x3 :: "dbl list"

definition constant_result :: "dbl \<Rightarrow> result" where
  "constant_result x = \<lparr>logp = x, d_x1 = [], d_x2 = [], d_x3 = []\<rparr>"

text \<open>
  Modelled from the spec: the constructor of \<open>OperandsAndPartials\<close> gives a
  differentiable argument a zero-initialised buffer of its length and a constant
  argument no buffer.
\<close>

definition partials_buffer :: "operand \<Rightarrow> dbl list" where
  "partials_buffer x = (if is_constant_struct x then [] else replicate (length_op x) 0)"

text \<open>
  One iteration of the loop over \<open>n\<close>, statement by statement. \<open>inv_beta\<close> and
  \<open>log_beta\<close> are the buffers filled before the loop, indexed as \<open>beta\<close> is.
\<close>

definition gumbel_log_step ::
  "bool \<Rightarrow> operand \<Rightarrow> operand \<Rightarrow> operand \<Rightarrow> dbl list \<Rightarrow> dbl list \<Rightarrow> nat \<Rightarrow> result \<Rightarrow> result" where
  "gumbel_log_step propto y mu beta inv_beta log_beta n s =
     (let y_dbl = vector_view y n;
          mu_dbl = vector_view mu n;
          y_minus_mu_over_beta = (y_dbl - mu_dbl) * inv_beta ! slot beta n;
          logp1 = (if include_summand propto [is_constant_struct beta]
                   then logp s - log_beta ! slot beta n else logp s);
          logp2 = (if include_summand propto
                        [is_constant_struct y, is_constant_struct mu, is_constant_struct beta]
                   then logp1 + (- y_minus_mu_over_beta - exp_dbl (- y_minus_mu_over_beta))
                   else logp1);
          scaled_diff = inv_beta ! slot beta n * exp_dbl (- y_minus_mu_over_beta);
          d1 = (if \<not> is_constant_struct y
                then (d_x1 s)[slot y n :=
                       d_x1 s ! slot y n - (inv_beta ! slot beta n - scaled_diff)]
                else d_x1 s);
          d2 = (if \<not> is_constant_struct mu
                then (d_x2 s)[slot mu n :=
                       d_x2 s ! slot mu n + (inv_beta ! slot beta n - scaled_diff)]
                else d_x2 s);
          d3 = (if \<not> is_constant_struct beta
                then (d_x3 s)[slot beta n :=
                       d_x3 s ! slot beta n
                         + (- (inv_beta ! slot beta n)
                            + y_minus_mu_over_beta * inv_beta ! slot beta n
                            - scaled_diff * y_minus_mu_over_beta)]
                else d_x3 s)
      in \<lparr>logp = logp2, d_x1 = d1, d_x2 = d2, d_x3 = d3\<rparr>)"

text \<open>\<open>for (size_t n = 0; n < N; n++)\<close>: the state after the first \<open>N\<close> iterations.\<close>

primrec gumbel_log_loop ::
  "bool \<Rightarrow> operand \<Rightarrow> operand \<Rightarrow> operand \<Rightarrow> dbl list \<Rightarrow> dbl list \<Rightarrow> nat \<Rightarrow> result \<Rightarrow> result" where
  "gumbel_log_loop propto y mu beta inv_beta log_beta 0 s = s"
| "gumbel_log_loop propto y mu beta inv_beta log_beta (Suc n) s =
     gumbel_log_step propto y mu beta inv_beta log_beta n
       (gumbel_log_loop propto y mu beta inv_beta log_beta n s)"

text \<open>
  The loop before it, \<open>for (size_t i = 0; i < length(beta); i++)\<close>, fills
  \<open>inv_beta\<close> and, when the summand of the scale is included, \<open>log_beta\<close>; a
  \<open>log_beta\<close> that is not included holds nothing.
\<close>

definition inv_beta_buffer :: "operand \<Rightarrow> dbl list" where
  "inv_beta_buffer beta = map (\<lambda>i. Fin 1 / vector_view beta i) [0..<length_op beta]"

definition log_beta_buffer :: "bool \<Rightarrow> operand \<Rightarrow> dbl list" where
  "log_beta_buffer propto beta =
     (if include_summand propto [is_constant_struct beta]
      then map (\<lambda>i. log_dbl (vector_view beta i)) [0..<length_op beta]
      else [])"

text \<open>
  \<open>gumbel_log<propto>(y, mu, beta, policy)\<close>. The policy is an object of the template
  class \<open>Policy\<close>, here of the type \<open>'p\<close>; the function does not read it.
\<close>

definition gumbel_log :: "bool \<Rightarrow> operand \<Rightarrow> operand \<Rightarrow> operand \<Rightarrow> 'p \<Rightarrow> result" where
  "gumbel_log propto y mu beta policy =
     (if \<not> (length_op y \<noteq> 0 \<and> length_op mu \<noteq> 0 \<and> length_op beta \<noteq> 0) then constant_result (Fin 0)
      else
        let (ok1, logp1) = check_not_nan y (Fin 0) in
        if \<not> ok1 then constant_result logp1
        else
          let (ok2, logp2) = check_finite mu logp1 in
          if \<not> ok2 then constant_result logp2
          else
            let (ok3, logp3) = check_positive beta logp2 in
            if \<not> ok3 then constant_result logp3
            else
              let (ok4, logp4) = check_consistent_sizes y mu beta logp3 in
              if \<not> ok4 then constant_result logp4
              else if \<not> include_summand propto
                         [is_constant_struct y, is_constant_struct mu, is_constant_struct beta]
              then constant_result (Fin 0)
              else
                let N = max_size y mu beta;
                    inv_beta = inv_beta_buffer beta;
                    log_beta = log_beta_buffer propto beta
                in gumbel_log_loop propto y mu beta inv_beta log_beta N
                     \<lparr>logp = logp4, d_x1 = partials_buffer y, d_x2 = partials_buffer mu,
                      d_x3 = partials_buffer beta\<rparr>)"

text \<open>
  Modelled from the spec: \<open>stan::math::default_policy\<close> is not among the sources; it
  is a policy object like any other.
\<close>

datatype default_policy = Default_policy

text \<open>\<open>gumbel_log<propto>(y, mu, beta)\<close>\<close>

definition gumbel_log_propto_default :: "bool \<Rightarrow> operand \<Rightarrow> operand \<Rightarrow> operand \<Rightarrow> result" where
  "gumbel_log_propto_default propto y mu beta = gumbel_log propto y mu beta Default_policy"

text \<open>\<open>gumbel_log(y, mu, beta, policy)\<close>\<close>

definition gumbel_log_policy :: "operand \<Rightarrow> operand \<Rightarrow> operand \<Rightarrow> 'p \<Rightarrow> result" where
  "gumbel_log_policy y mu beta policy = gumbel_log False y mu beta policy"

text \<open>\<open>gumbel_log(y, mu, beta)\<close>\<close>

definition gumbel_log_default :: "operand \<Rightarrow> operand \<Rightarrow> operand \<Rightarrow> result" where
  "gumbel_log_default y mu beta = gumbel_log False y mu beta Default_policy"

subsection \<open>\<open>gumbel_cdf\<close>\<close>

text \<open>
  The source holds the markers of an unresolved merge; the branch before the separator
  is commented out, so the function is the branch after it. It has no
  \<open>OperandsAndPartials\<close>: the model returns the value of \<open>cdf\<close>.
\<close>

primrec gumbel_cdf_loop :: "operand \<Rightarrow> operand \<Rightarrow> operand \<Rightarrow> nat \<Rightarrow> dbl \<Rightarrow> dbl" where
  "gumbel_cdf_loop y mu beta 0 cdf = cdf"
| "gumbel_cdf_loop y mu beta (Suc n) cdf =
     gumbel_cdf_loop y mu beta n cdf
       * exp_dbl (- exp_dbl (- (vector_view y n - vector_view mu n) / vector_view beta n))"

definition gumbel_cdf :: "operand \<Rightarrow> operand \<Rightarrow> operand \<Rightarrow> 'p \<Rightarrow> dbl" where
  "gumbel_cdf y mu beta policy =
     (if \<not> (length_op y \<noteq> 0 \<and> length_op mu \<noteq> 0 \<and> length_op beta \<noteq> 0) then Fin 1
      else
        let (ok1, cdf1) = check_not_nan y (Fin 1) in
        if \<not> ok1 then cdf1
        else
          let (ok2, cdf2) = check_finite mu cdf1 in
          if \<not> ok2 then cdf2
          else
            let (ok3, cdf3) = check_not_nan beta cdf2 in
            if \<not> ok3 then cdf3
            else
              let (ok4, cdf4) = check_positive beta cdf3 in
              if \<not> ok4 then cdf4
              else
                let (ok5, cdf5) = check_consistent_sizes y mu beta cdf4 in
                if \<not> ok5 then cdf5
                else gumbel_cdf_loop y mu beta (max_size y mu beta) cdf5)"

text \<open>\<open>gumbel_cdf(y, mu, beta)\<close>\<close>

definition gumbel_cdf_default :: "operand \<Rightarrow> operand \<Rightarrow> operand \<Rightarrow> dbl" where
  "gumbel_cdf_default y mu beta = gumbel_cdf y mu beta Default_policy"

section \<open>The formulas of the specification\<close>

text \<open>
  These definitions follow the words of the specification, not the source; the theorems
  compare them with the functions above. An argument passes validation when the random
  variable is not NaN, the location is finite, the scale is strictly positive and the
  sizes are consistent.
\<close>

definition passes_validation :: "operand \<Rightarrow> operand \<Rightarrow> operand \<Rightarrow> bool" where
  "passes_validation y mu beta =
     (list_all (\<lambda>v. \<not> is_nan v) (elements y)
      \<and> list_all is_finite (elements mu)
      \<and> list_all positive (elements beta)
      \<and> (\<not> is_vector y \<or> length_op y = max_size y mu beta)
      \<and> (\<not> is_vector mu \<or> length_op mu = max_size y mu beta)
      \<and> (\<not> is_vector beta \<or> length_op beta = max_size y mu beta))"

text \<open>\<open>z_n = (y[n] - mu[n]) / beta[n]\<close> at the broadcast index \<open>n\<close>.\<close>

definition z_n :: "operand \<Rightarrow> operand \<Rightarrow> operand \<Rightarrow> nat \<Rightarrow> dbl" where
  "z_n y mu beta n = (vector_view y n - vector_view mu n) / vector_view beta n"

text \<open>
  The summand \<open>-log(beta[n]) - z_n - exp(-z_n)\<close> of the log-density, with or without
  its first term.
\<close>

definition log_density_term :: "bool \<Rightarrow> operand \<Rightarrow> operand \<Rightarrow> operand \<Rightarrow> nat \<Rightarrow> dbl" where
  "log_density_term with_log_beta y mu beta n =
     (if with_log_beta then - log_dbl (vector_view beta n) else 0)
       - z_n y mu beta n - exp_dbl (- z_n y mu beta n)"

definition log_density :: "bool \<Rightarrow> operand \<Rightarrow> operand \<Rightarrow> operand \<Rightarrow> dbl" where
  "log_density with_log_beta y mu beta =
     (\<Sum>n<max_size y mu beta. log_density_term with_log_beta y mu beta n)"

text \<open>The analytic partial derivatives of the summand at index \<open>n\<close>.\<close>

definition dlogp_dy :: "operand \<Rightarrow> operand \<Rightarrow> operand \<Rightarrow> nat \<Rightarrow> dbl" where
  "dlogp_dy y mu beta n =
     - (Fin 1 / vector_view beta n) * (Fin 1 - exp_dbl (- z_n y mu beta n))"

definition dlogp_dmu :: "operand \<Rightarrow> operand \<Rightarrow> operand \<Rightarrow> nat \<Rightarrow> dbl" where
  "dlogp_dmu y mu beta n =
     (Fin 1 / vector_view beta n) * (Fin 1 - exp_dbl (- z_n y mu beta n))"

definition dlogp_dbeta :: "operand \<Rightarrow> operand \<Rightarrow> operand \<Rightarrow> nat \<Rightarrow> dbl" where
  "dlogp_dbeta y mu beta n =
     (Fin 1 / vector_view beta n)
       * (z_n y mu beta n * (Fin 1 - exp_dbl (- z_n y mu beta n)) - Fin 1)"

text \<open>
  What the buffer of an argument holds after \<open>N\<close> iterations that each add \<open>f n\<close> at
  index \<open>n\<close>: nothing for a constant, the partial derivative of each element of a
  differentiable sequence, and for a differentiable scalar, which every index
  addresses, their sum.
\<close>

definition accumulated :: "operand \<Rightarrow> nat \<Rightarrow> (nat \<Rightarrow> dbl) \<Rightarrow> dbl list" where
  "accumulated x N f =
     (if is_constant_struct x then []
      else if is_vector x then map f [0..<N]
      else [\<Sum>n<N. f n])"

text \<open>The product of \<open>exp(-exp(-(y[n] - mu[n]) / beta[n]))\<close> over the broadcast index.\<close>

definition cdf_product :: "operand \<Rightarrow> operand \<Rightarrow> operand \<Rightarrow> dbl" where
  "cdf_product y mu beta =
     (\<Prod>n<max_size y mu beta.
        exp_dbl (- exp_dbl (- (vector_view y n - vector_view mu n) / vector_view beta n)))"

section \<open>Properties of the dot product\<close>

lemma dot_product_loop_sum:
  fixes v1 v2 :: "'a::{comm_monoid_add,times} fvar list"
  assumes "n \<le> length v1" "n \<le> length v2"
  shows "dot_product_loop v1 v2 n =
           Inr \<lparr>val = (\<Sum>i<n. val (v1 ! i) * val (v2 ! i)),
                deriv = (\<Sum>i<n. deriv (v1 ! i) * val (v2 ! i) + val (v1 ! i) * deriv (v2 ! i))\<rparr>"
  using assms
  by (induction n) (simp_all add: at_v_def fvar_times_def fvar_plus_assign_def)

lemma dot_product_loop_m_sum:
  fixes v1 v2 :: "'a::{comm_monoid_add,times} fvar matrix"
  assumes "n \<le> size_m v1" "n \<le> size_m v2"
  shows "dot_product_loop_m v1 v2 n =
           Inr \<lparr>val = (\<Sum>i<n. val (coeff v1 i) * val (coeff v2 i)),
                deriv = (\<Sum>i<n. deriv (coeff v1 i) * val (coeff v2 i)
                                + val (coeff v1 i) * deriv (coeff v2 i))\<rparr>"
  using assms
  by (induction n) (simp_all add: coeff_at_def fvar_times_def fvar_plus_assign_def)

lemma size_head_m: "rows v = 1 \<or> cols v = 1 \<Longrightarrow> size_m (head_m v len) = len"
  by (auto simp: head_m_def size_m_def)

lemma validate_head_m: "rows v = 1 \<or> cols v = 1 \<Longrightarrow> validate_vector (head_m v len) = None"
  by (auto simp: head_m_def validate_vector_def)

lemma coeff_head_m: "coeff (head_m v len) = coeff v"
  by (simp add: head_m_def)


section \<open>Properties of the Gumbel functions\<close>

subsection \<open>Arithmetic of dbl\<close>

lemma dbl_diff_conv: "(a::dbl) - b = a + (- b)"
  by (simp add: minus_dbl_def)

lemma dbl_zero_left: "Fin 0 + (a::dbl) = a"
  by (cases a) simp_all

lemma scaled_eq_quotient: "positive b \<Longrightarrow> x * (Fin 1 / b) = x / b"
  by (cases b; cases x) (auto simp: inf_of_sign_def sgn_real_def)

lemma inverse_positive: "positive b \<Longrightarrow> \<exists>c. Fin 1 / b = Fin c"
  by (cases b) auto

lemma partial_location: "Fin c - Fin c * e = Fin c * (Fin 1 - e)"
  by (cases e) (auto simp: minus_dbl_def inf_of_sign_def sgn_real_def algebra_simps)

lemma partial_variate: "- (Fin c - Fin c * e) = - Fin c * (Fin 1 - e)"
  by (cases e) (auto simp: minus_dbl_def inf_of_sign_def sgn_real_def algebra_simps)

lemma partial_scale:
  "- Fin c + Fin t * Fin c - Fin c * exp_dbl (- Fin t) * Fin t
     = Fin c * (Fin t * (Fin 1 - exp_dbl (- Fin t)) - Fin 1)"
  by (simp add: minus_dbl_def algebra_simps)

subsection \<open>Validated arguments\<close>

lemma view_in_elements:
  "\<not> is_vector x \<or> length_op x = N \<Longrightarrow> n < N \<Longrightarrow> vector_view x n \<in> set (elements x)"
  by (cases x) auto

lemma view_positive:
  "passes_validation y mu beta \<Longrightarrow> n < max_size y mu beta \<Longrightarrow> positive (vector_view beta n)"
  using view_in_elements [of beta "max_size y mu beta" n]
  by (auto simp: passes_validation_def list_all_iff)

lemma view_finite:
  "passes_validation y mu beta \<Longrightarrow> n < max_size y mu beta \<Longrightarrow> is_finite (vector_view mu n)"
  using view_in_elements [of mu "max_size y mu beta" n]
  by (auto simp: passes_validation_def list_all_iff)

lemma slot_less:
  "\<not> is_vector x \<or> length_op x = N \<Longrightarrow> n < N \<Longrightarrow> slot x n < length_op x"
  by (cases x) (auto simp: slot_def)

lemma view_slot: "vector_view x (slot x n) = vector_view x n"
  by (cases x) (auto simp: slot_def)

lemma buffer_nth:
  assumes "\<not> is_vector x \<or> length_op x = N" "n < N"
  shows "map (\<lambda>i. f (vector_view x i)) [0..<length_op x] ! slot x n = f (vector_view x n)"
  using slot_less [OF assms] by (simp add: view_slot)

lemma inv_beta_nth:
  assumes "passes_validation y mu beta" "n < max_size y mu beta"
  shows "inv_beta_buffer beta ! slot beta n = Fin 1 / vector_view beta n"
  unfolding inv_beta_buffer_def
  using assms by (intro buffer_nth [where N = "max_size y mu beta"]) (auto simp: passes_validation_def)

lemma log_beta_nth:
  assumes "passes_validation y mu beta" "n < max_size y mu beta"
    "include_summand propto [is_constant_struct beta]"
  shows "log_beta_buffer propto beta ! slot beta n = log_dbl (vector_view beta n)"
  unfolding log_beta_buffer_def
  using assms
  by (simp add: buffer_nth [where N = "max_size y mu beta"] passes_validation_def)

lemma y_minus_mu_over_beta:
  assumes "passes_validation y mu beta" "n < max_size y mu beta"
  shows "(vector_view y n - vector_view mu n) * inv_beta_buffer beta ! slot beta n = z_n y mu beta n"
  using assms by (simp add: inv_beta_nth scaled_eq_quotient view_positive z_n_def)

subsection \<open>One iteration\<close>

lemma step_fields:
  assumes ib: "IB ! slot beta n = Fin c"
    and zz: "(vector_view y n - vector_view mu n) * Fin c = zz"
  shows "logp (gumbel_log_step propto y mu beta IB LB n s)
         = (if include_summand propto [is_constant_struct y, is_constant_struct mu, is_constant_struct beta]
            then (if include_summand propto [is_constant_struct beta]
                  then logp s - LB ! slot beta n else logp s) + (- zz - exp_dbl (- zz))
            else (if include_summand propto [is_constant_struct beta]
                  then logp s - LB ! slot beta n else logp s))"
    and "d_x1 (gumbel_log_step propto y mu beta IB LB n s)
         = (if is_constant_struct y then d_x1 s
            else (d_x1 s)[slot y n := d_x1 s ! slot y n - (Fin c - Fin c * exp_dbl (- zz))])"
    and "d_x2 (gumbel_log_step propto y mu beta IB LB n s)
         = (if is_constant_struct mu then d_x2 s
            else (d_x2 s)[slot mu n := d_x2 s ! slot mu n + (Fin c - Fin c * exp_dbl (- zz))])"
    and "d_x3 (gumbel_log_step propto y mu beta IB LB n s)
         = (if is_constant_struct beta then d_x3 s
            else (d_x3 s)[slot beta n := d_x3 s ! slot beta n
                   + (- Fin c + zz * Fin c - Fin c * exp_dbl (- zz) * zz)])"
  by (simp_all add: gumbel_log_step_def Let_def ib zz)

lemma step_facts:
  assumes "passes_validation y mu beta" "n < max_size y mu beta"
  obtains c where "inv_beta_buffer beta ! slot beta n = Fin c"
    and "Fin 1 / vector_view beta n = Fin c"
    and "(vector_view y n - vector_view mu n) * Fin c = z_n y mu beta n"
proof -
  obtain c where c: "Fin 1 / vector_view beta n = Fin c"
    using inverse_positive view_positive [OF assms] by blast
  have ib: "inv_beta_buffer beta ! slot beta n = Fin c"
    using inv_beta_nth [OF assms] c by simp
  have "(vector_view y n - vector_view mu n) * Fin c = z_n y mu beta n"
    using y_minus_mu_over_beta [OF assms] ib by simp
  with c ib show ?thesis using that by blast
qed

lemma step_logp:
  assumes "passes_validation y mu beta" "n < max_size y mu beta"
    "include_summand propto [is_constant_struct y, is_constant_struct mu, is_constant_struct beta]"
  shows "logp (gumbel_log_step propto y mu beta (inv_beta_buffer beta) (log_beta_buffer propto beta) n s)
         = logp s + log_density_term (include_summand propto [is_constant_struct beta]) y mu beta n"
proof -
  obtain c where ib: "inv_beta_buffer beta ! slot beta n = Fin c"
    and zz: "(vector_view y n - vector_view mu n) * Fin c = z_n y mu beta n"
    using step_facts [OF assms(1,2)] by blast
  show ?thesis
    unfolding step_fields(1) [OF ib zz] log_density_term_def
    using assms log_beta_nth [OF assms(1,2), of propto]
    by (simp add: minus_dbl_def add.assoc zero_dbl_def dbl_zero_left)
qed

lemma step_d_x1:
  assumes "passes_validation y mu beta" "n < max_size y mu beta"
  shows "d_x1 (gumbel_log_step propto y mu beta (inv_beta_buffer beta) LB n s)
         = (if is_constant_struct y then d_x1 s
            else (d_x1 s)[slot y n := d_x1 s ! slot y n + dlogp_dy y mu beta n])"
proof -
  obtain c where ib: "inv_beta_buffer beta ! slot beta n = Fin c"
    and c: "Fin 1 / vector_view beta n = Fin c"
    and zz: "(vector_view y n - vector_view mu n) * Fin c = z_n y mu beta n"
    using step_facts [OF assms(1,2)] by blast
  show ?thesis
    unfolding step_fields(2) [OF ib zz] dlogp_dy_def c
    by (simp only: dbl_diff_conv [of "d_x1 s ! slot y n"] partial_variate)
qed

lemma step_d_x2:
  assumes "passes_validation y mu beta" "n < max_size y mu beta"
  shows "d_x2 (gumbel_log_step propto y mu beta (inv_beta_buffer beta) LB n s)
         = (if is_constant_struct mu then d_x2 s
            else (d_x2 s)[slot mu n := d_x2 s ! slot mu n + dlogp_dmu y mu beta n])"
proof -
  obtain c where ib: "inv_beta_buffer beta ! slot beta n = Fin c"
    and c: "Fin 1 / vector_view beta n = Fin c"
    and zz: "(vector_view y n - vector_view mu n) * Fin c = z_n y mu beta n"
    using step_facts [OF assms(1,2)] by blast
  show ?thesis
    unfolding step_fields(3) [OF ib zz] dlogp_dmu_def c
    by (simp only: partial_location)
qed

lemma z_finite:
  assumes "passes_validation y mu beta" "n < max_size y mu beta" "is_finite (vector_view y n)"
  shows "\<exists>t. z_n y mu beta n = Fin t"
proof -
  obtain a where a: "vector_view y n = Fin a"
    using assms(3) by (cases "vector_view y n") auto
  obtain m where m: "vector_view mu n = Fin m"
    using view_finite [OF assms(1,2)] by (cases "vector_view mu n") auto
  show ?thesis
    using view_positive [OF assms(1,2)]
    by (cases "vector_view beta n") (auto simp: z_n_def a m minus_dbl_def)
qed

lemma step_d_x3:
  assumes "passes_validation y mu beta" "n < max_size y mu beta" "is_finite (vector_view y n)"
  shows "d_x3 (gumbel_log_step propto y mu beta (inv_beta_buffer beta) LB n s)
         = (if is_constant_struct beta then d_x3 s
            else (d_x3 s)[slot beta n := d_x3 s ! slot beta n + dlogp_dbeta y mu beta n])"
proof -
  obtain c where ib: "inv_beta_buffer beta ! slot beta n = Fin c"
    and c: "Fin 1 / vector_view beta n = Fin c"
    and zz: "(vector_view y n - vector_view mu n) * Fin c = z_n y mu beta n"
    using step_facts [OF assms(1,2)] by blast
  obtain t where t: "z_n y mu beta n = Fin t"
    using z_finite [OF assms] by blast
  show ?thesis
    unfolding step_fields(4) [OF ib zz] dlogp_dbeta_def c t
    by (simp only: partial_scale)
qed

subsection \<open>The loop\<close>

lemma loop_logp:
  assumes "passes_validation y mu beta"
    "include_summand propto [is_constant_struct y, is_constant_struct mu, is_constant_struct beta]"
    "k \<le> max_size y mu beta"
  shows "logp (gumbel_log_loop propto y mu beta (inv_beta_buffer beta) (log_beta_buffer propto beta) k s)
         = logp s + (\<Sum>n<k. log_density_term (include_summand propto [is_constant_struct beta]) y mu beta n)"
  using assms(3)
  by (induction k) (simp_all add: step_logp [OF assms(1) _ assms(2)] add.assoc)

lemma buffer_update_vector:
  fixes f :: "nat \<Rightarrow> dbl"
  assumes "k < N"
  shows "(map f [0..<k] @ replicate (N - k) 0)[k := (map f [0..<k] @ replicate (N - k) 0) ! k + f k]
         = map f [0..<Suc k] @ replicate (N - Suc k) 0"
proof -
  from assms obtain m where m: "N - k = Suc m" "N - Suc k = m"
    by (cases "N - k") auto
  show ?thesis
    by (simp add: m nth_append list_update_append)
qed

text \<open>The invariant of a buffer, for whichever of the three arguments it belongs to.\<close>

lemma buffer_invariant_step:
  fixes f :: "nat \<Rightarrow> dbl"
  assumes "\<not> is_vector x \<or> length_op x = N" "k < N"
    and "b = (if is_vector x then map f [0..<k] @ replicate (N - k) 0 else [\<Sum>n<k. f n])"
  shows "b[slot x k := b ! slot x k + f k]
         = (if is_vector x then map f [0..<Suc k] @ replicate (N - Suc k) 0 else [\<Sum>n<Suc k. f n])"
  using assms by (cases x) (simp_all add: slot_def buffer_update_vector)

lemma buffer_invariant_start:
  assumes "\<not> is_vector x \<or> length_op x = N" "\<not> is_constant_struct x"
  shows "partials_buffer x = (if is_vector x then map f [0..<0] @ replicate (N - 0) 0 else [\<Sum>n<0. f n])"
  using assms by (cases x) (simp_all add: partials_buffer_def)

lemma loop_d_x1:
  assumes v: "passes_validation y mu beta" and d: "\<not> is_constant_struct y"
    and k: "k \<le> max_size y mu beta" and s: "d_x1 s = partials_buffer y"
  shows "d_x1 (gumbel_log_loop propto y mu beta (inv_beta_buffer beta) LB k s)
         = (if is_vector y then map (dlogp_dy y mu beta) [0..<k] @ replicate (max_size y mu beta - k) 0
            else [\<Sum>n<k. dlogp_dy y mu beta n])"
  using k
proof (induction k)
  case 0
  from v have "\<not> is_vector y \<or> length_op y = max_size y mu beta"
    by (simp add: passes_validation_def)
  from buffer_invariant_start [OF this d] s show ?case by simp
next
  case (Suc k)
  from v have c: "\<not> is_vector y \<or> length_op y = max_size y mu beta"
    by (simp add: passes_validation_def)
  from Suc have kN: "k < max_size y mu beta" by simp
  from Suc have ih: "d_x1 (gumbel_log_loop propto y mu beta (inv_beta_buffer beta) LB k s)
         = (if is_vector y then map (dlogp_dy y mu beta) [0..<k] @ replicate (max_size y mu beta - k) 0
            else [\<Sum>n<k. dlogp_dy y mu beta n])" by simp
  show ?case
    using buffer_invariant_step [OF c kN ih] d
    by (simp add: step_d_x1 [OF v kN])
qed

lemma loop_d_x2:
  assumes v: "passes_validation y mu beta" and d: "\<not> is_constant_struct mu"
    and k: "k \<le> max_size y mu beta" and s: "d_x2 s = partials_buffer mu"
  shows "d_x2 (gumbel_log_loop propto y mu beta (inv_beta_buffer beta) LB k s)
         = (if is_vector mu then map (dlogp_dmu y mu beta) [0..<k] @ replicate (max_size y mu beta - k) 0
            else [\<Sum>n<k. dlogp_dmu y mu beta n])"
  using k
proof (induction k)
  case 0
  from v have "\<not> is_vector mu \<or> length_op mu = max_size y mu beta"
    by (simp add: passes_validation_def)
  from buffer_invariant_start [OF this d] s show ?case by simp
next
  case (Suc k)
  from v have c: "\<not> is_vector mu \<or> length_op mu = max_size y mu beta"
    by (simp add: passes_validation_def)
  from Suc have kN: "k < max_size y mu beta" by simp
  from Suc have ih: "d_x2 (gumbel_log_loop propto y mu beta (inv_beta_buffer beta) LB k s)
         = (if is_vector mu then map (dlogp_dmu y mu beta) [0..<k] @ replicate (max_size y mu beta - k) 0
            else [\<Sum>n<k. dlogp_dmu y mu beta n])" by simp
  show ?case
    using buffer_invariant_step [OF c kN ih] d
    by (simp add: step_d_x2 [OF v kN])
qed

lemma loop_d_x3:
  assumes v: "passes_validation y mu beta" and d: "\<not> is_constant_struct beta"
    and f: "list_all is_finite (elements y)"
    and k: "k \<le> max_size y mu beta" and s: "d_x3 s = partials_buffer beta"
  shows "d_x3 (gumbel_log_loop propto y mu beta (inv_beta_buffer beta) LB k s)
         = (if is_vector beta then map (dlogp_dbeta y mu beta) [0..<k] @ replicate (max_size y mu beta - k) 0
            else [\<Sum>n<k. dlogp_dbeta y mu beta n])"
  using k
proof (induction k)
  case 0
  from v have "\<not> is_vector beta \<or> length_op beta = max_size y mu beta"
    by (simp add: passes_validation_def)
  from buffer_invariant_start [OF this d] s show ?case by simp
next
  case (Suc k)
  from v have c: "\<not> is_vector beta \<or> length_op beta = max_size y mu beta"
    and cy: "\<not> is_vector y \<or> length_op y = max_size y mu beta"
    by (simp_all add: passes_validation_def)
  from Suc have kN: "k < max_size y mu beta" by simp
  have fin: "is_finite (vector_view y k)"
    using view_in_elements [OF cy kN] f by (simp add: list_all_iff)
  from Suc have ih: "d_x3 (gumbel_log_loop propto y mu beta (inv_beta_buffer beta) LB k s)
         = (if is_vector beta then map (dlogp_dbeta y mu beta) [0..<k] @ replicate (max_size y mu beta - k) 0
            else [\<Sum>n<k. dlogp_dbeta y mu beta n])" by simp
  show ?case
    using buffer_invariant_step [OF c kN ih] d
    by (simp add: step_d_x3 [OF v kN fin])
qed

lemma loop_constant:
  "is_constant_struct y \<Longrightarrow> d_x1 (gumbel_log_loop propto y mu beta IB LB k s) = d_x1 s"
  "is_constant_struct mu \<Longrightarrow> d_x2 (gumbel_log_loop propto y mu beta IB LB k s) = d_x2 s"
  "is_constant_struct beta \<Longrightarrow> d_x3 (gumbel_log_loop propto y mu beta IB LB k s) = d_x3 s"
  by (induction k) (simp_all add: gumbel_log_step_def Let_def)

subsection \<open>The whole call\<close>

lemma gumbel_log_invalid:
  "\<not> passes_validation y mu beta \<Longrightarrow> gumbel_log propto y mu beta policy = constant_result (Fin 0)"
  by (auto simp: gumbel_log_def passes_validation_def check_not_nan_def check_finite_def
      check_positive_def check_consistent_sizes_def check_consistent_size_def)

lemma gumbel_log_valid:
  "passes_validation y mu beta \<Longrightarrow>
   gumbel_log propto y mu beta policy =
     (if length_op y = 0 \<or> length_op mu = 0 \<or> length_op beta = 0 then constant_result (Fin 0)
      else if \<not> include_summand propto
                  [is_constant_struct y, is_constant_struct mu, is_constant_struct beta]
      then constant_result (Fin 0)
      else gumbel_log_loop propto y mu beta (inv_beta_buffer beta) (log_beta_buffer propto beta)
             (max_size y mu beta)
             \<lparr>logp = Fin 0, d_x1 = partials_buffer y, d_x2 = partials_buffer mu,
              d_x3 = partials_buffer beta\<rparr>)"
  by (auto simp: gumbel_log_def passes_validation_def check_not_nan_def check_finite_def
      check_positive_def check_consistent_sizes_def check_consistent_size_def Let_def)

lemma empty_valid:
  assumes "passes_validation y mu beta"
    "length_op y = 0 \<or> length_op mu = 0 \<or> length_op beta = 0"
  shows "max_size y mu beta = 0 \<and> is_vector y \<and> is_vector mu \<and> is_vector beta"
  using assms
  by (cases y; cases mu; cases beta) (auto simp: passes_validation_def max_size_def)

lemma accumulated_loop:
  "accumulated x N f =
     (if is_constant_struct x then []
      else if is_vector x then map f [0..<N] @ replicate (N - N) 0 else [\<Sum>n<N. f n])"
  by (simp add: accumulated_def)

lemma gumbel_log_value:
  assumes "passes_validation y mu beta"
  shows "logp (gumbel_log propto y mu beta policy) =
     (if include_summand propto [is_constant_struct y, is_constant_struct mu, is_constant_struct beta]
      then log_density (include_summand propto [is_constant_struct beta]) y mu beta
      else Fin 0)"
proof (cases "length_op y = 0 \<or> length_op mu = 0 \<or> length_op beta = 0")
  case True
  with empty_valid [OF assms] show ?thesis
    by (simp add: gumbel_log_valid [OF assms] constant_result_def log_density_def zero_dbl_def)
next
  case False
  then show ?thesis
    by (simp add: gumbel_log_valid [OF assms] constant_result_def log_density_def
        loop_logp [OF assms] dbl_zero_left)
qed

lemma gumbel_log_d_x1:
  assumes "passes_validation y mu beta"
  shows "d_x1 (gumbel_log propto y mu beta policy)
         = accumulated y (max_size y mu beta) (dlogp_dy y mu beta)"
proof (cases "length_op y = 0 \<or> length_op mu = 0 \<or> length_op beta = 0")
  case True
  with empty_valid [OF assms] show ?thesis
    by (simp add: gumbel_log_valid [OF assms] constant_result_def accumulated_def)
next
  case False
  show ?thesis
  proof (cases "is_constant_struct y")
    case True
    with False show ?thesis
      by (simp add: gumbel_log_valid [OF assms] constant_result_def accumulated_def
          loop_constant partials_buffer_def)
  next
    case d: False
    then have "include_summand propto
                 [is_constant_struct y, is_constant_struct mu, is_constant_struct beta]"
      by (simp add: include_summand_def)
    with False d show ?thesis
      by (simp add: gumbel_log_valid [OF assms] accumulated_loop loop_d_x1 [OF assms d])
  qed
qed

lemma gumbel_log_d_x2:
  assumes "passes_validation y mu beta"
  shows "d_x2 (gumbel_log propto y mu beta policy)
         = accumulated mu (max_size y mu beta) (dlogp_dmu y mu beta)"
proof (cases "length_op y = 0 \<or> length_op mu = 0 \<or> length_op beta = 0")
  case True
  with empty_valid [OF assms] show ?thesis
    by (simp add: gumbel_log_valid [OF assms] constant_result_def accumulated_def)
next
  case False
  show ?thesis
  proof (cases "is_constant_struct mu")
    case True
    with False show ?thesis
      by (simp add: gumbel_log_valid [OF assms] constant_result_def accumulated_def
          loop_constant partials_buffer_def)
  next
    case d: False
    then have "include_summand propto
                 [is_constant_struct y, is_constant_struct mu, is_constant_struct beta]"
      by (simp add: include_summand_def)
    with False d show ?thesis
      by (simp add: gumbel_log_valid [OF assms] accumulated_loop loop_d_x2 [OF assms d])
  qed
qed

lemma gumbel_log_d_x3:
  assumes "passes_validation y mu beta"
    and "is_constant_struct beta \<or> list_all is_finite (elements y)"
  shows "d_x3 (gumbel_log propto y mu beta policy)
         = accumulated beta (max_size y mu beta) (dlogp_dbeta y mu beta)"
proof (cases "length_op y = 0 \<or> length_op mu = 0 \<or> length_op beta = 0")
  case True
  with empty_valid [OF assms(1)] show ?thesis
    by (simp add: gumbel_log_valid [OF assms(1)] constant_result_def accumulated_def)
next
  case False
  show ?thesis
  proof (cases "is_constant_struct beta")
    case True
    with False show ?thesis
      by (simp add: gumbel_log_valid [OF assms(1)] constant_result_def accumulated_def
          loop_constant partials_buffer_def)
  next
    case d: False
    then have i: "include_summand propto
                 [is_constant_struct y, is_constant_struct mu, is_constant_struct beta]"
      by (simp add: include_summand_def)
    from d assms(2) have f: "list_all is_finite (elements y)" by simp
    from False d i show ?thesis
      by (simp add: gumbel_log_valid [OF assms(1)] accumulated_loop loop_d_x3 [OF assms(1) d f])
  qed
qed

subsection \<open>The CDF\<close>

lemma gumbel_cdf_loop_product:
  "gumbel_cdf_loop y mu beta k cdf =
     cdf * (\<Prod>n<k. exp_dbl (- exp_dbl (- (vector_view y n - vector_view mu n) / vector_view beta n)))"
  by (induction k) (simp_all add: mult.assoc)

lemma positive_not_nan: "list_all positive xs \<Longrightarrow> list_all (\<lambda>v. \<not> is_nan v) xs"
proof -
  have "positive v \<Longrightarrow> \<not> is_nan v" for v by (cases v) auto
  then show "list_all positive xs \<Longrightarrow> list_all (\<lambda>v. \<not> is_nan v) xs"
    by (auto simp: list_all_iff)
qed

lemma gumbel_cdf_valid:
  assumes "passes_validation y mu beta"
  shows "gumbel_cdf y mu beta policy = cdf_product y mu beta"
proof (cases "length_op y = 0 \<or> length_op mu = 0 \<or> length_op beta = 0")
  case True
  with empty_valid [OF assms] show ?thesis
    by (auto simp: gumbel_cdf_def cdf_product_def one_dbl_def)
next
  case False
  from assms have "list_all (\<lambda>v. \<not> is_nan v) (elements beta)"
    by (simp add: passes_validation_def positive_not_nan)
  with False assms show ?thesis
    by (simp add: gumbel_cdf_def passes_validation_def check_not_nan_def check_finite_def
      check_positive_def check_consistent_sizes_def check_consistent_size_def
      gumbel_cdf_loop_product cdf_product_def one_dbl_def [symmetric])
qed

subsection \<open>The proportionality flag\<close>

lemma loop_propto_irrelevant:
  "\<not> is_constant_struct beta \<Longrightarrow>
   gumbel_log_loop True y mu beta IB LB k s = gumbel_log_loop False y mu beta IB LB k s"
  by (induction k) (simp_all add: gumbel_log_step_def include_summand_def)

lemma gumbel_log_propto_irrelevant:
  assumes "\<not> is_constant_struct beta"
  shows "gumbel_log True y mu beta policy = gumbel_log False y mu beta policy"
proof -
  have i: "include_summand True
             [is_constant_struct y, is_constant_struct mu, is_constant_struct beta]
           = include_summand False
             [is_constant_struct y, is_constant_struct mu, is_constant_struct beta]"
    using assms by (simp add: include_summand_def)
  have b: "log_beta_buffer True beta = log_beta_buffer False beta"
    using assms by (simp add: log_beta_buffer_def include_summand_def)
  show ?thesis
    unfolding gumbel_log_def i b loop_propto_irrelevant [OF assms] ..
qed

lemma log_density_split:
  "log_density True y mu beta =
     log_density False y mu beta + (\<Sum>n<max_size y mu beta. - log_dbl (vector_view beta n))"
  by (simp add: log_density_def log_density_term_def sum.distrib [symmetric] minus_dbl_def
      ac_simps)

section \<open>The claims\<close>

text \<open>
  The definitions unfolded to evaluate a call of the Gumbel functions on given arguments.
\<close>

lemmas gumbel_eval =
  passes_validation_def max_size_def gumbel_log_def check_not_nan_def check_finite_def
  check_positive_def check_consistent_sizes_def check_consistent_size_def include_summand_def
  gumbel_log_step_def slot_def partials_buffer_def constant_result_def inv_beta_buffer_def
  log_beta_buffer_def log_density_def log_density_term_def z_n_def accumulated_def
  dlogp_dy_def dlogp_dmu_def dlogp_dbeta_def minus_dbl_def zero_dbl_def one_dbl_def
  inf_of_sign_def lessThan_Suc gumbel_cdf_def cdf_product_def

subsection \<open>C1: the value and the derivative of the dot product\<close>

text \<open>
  Claim C1. For sequences \<open>a\<close>, \<open>b\<close> of differentiable scalars of equal length,
  \<open>dot_product(a,b)\<close> returns the scalar whose value is the sum over \<open>i\<close> of
  \<open>a[i].value * b[i].value\<close> and whose derivative is the sum over \<open>i\<close> of
  \<open>a[i].derivative * b[i].value + a[i].value * b[i].derivative\<close>. This holds of the
  \<open>std::vector\<close> entry point and, for vector-shaped matrices of equal size, of the
  Eigen entry point. The accumulation starts from value 0 and derivative 0: that is
  the result on empty sequences.
\<close>

theorem dot_product_value_and_derivative:
  fixes a b :: "'a::{comm_monoid_add,times} fvar list" and m1 m2 :: "'a fvar matrix"
  shows "(length a = length b \<longrightarrow>
            dot_product a b =
              Inr \<lparr>val = (\<Sum>i<length a. val (a ! i) * val (b ! i)),
                   deriv = (\<Sum>i<length a. deriv (a ! i) * val (b ! i) + val (a ! i) * deriv (b ! i))\<rparr>)
       \<and> ((rows m1 = 1 \<or> cols m1 = 1) \<and> (rows m2 = 1 \<or> cols m2 = 1) \<and> size_m m1 = size_m m2 \<longrightarrow>
            dot_product_m m1 m2 =
              Inr \<lparr>val = (\<Sum>i<size_m m1. val (coeff m1 i) * val (coeff m2 i)),
                   deriv = (\<Sum>i<size_m m1. deriv (coeff m1 i) * val (coeff m2 i)
                                           + val (coeff m1 i) * deriv (coeff m2 i))\<rparr>)
       \<and> dot_product [] ([] :: 'a fvar list) = Inr \<lparr>val = 0, deriv = 0\<rparr>"
proof (intro conjI impI)
  assume "length a = length b"
  then show "dot_product a b =
              Inr \<lparr>val = (\<Sum>i<length a. val (a ! i) * val (b ! i)),
                   deriv = (\<Sum>i<length a. deriv (a ! i) * val (b ! i) + val (a ! i) * deriv (b ! i))\<rparr>"
    by (simp add: dot_product_def validate_matching_sizes_def dot_product_loop_sum)
next
  assume "(rows m1 = 1 \<or> cols m1 = 1) \<and> (rows m2 = 1 \<or> cols m2 = 1) \<and> size_m m1 = size_m m2"
  then show "dot_product_m m1 m2 =
              Inr \<lparr>val = (\<Sum>i<size_m m1. val (coeff m1 i) * val (coeff m2 i)),
                   deriv = (\<Sum>i<size_m m1. deriv (coeff m1 i) * val (coeff m2 i)
                                           + val (coeff m1 i) * deriv (coeff m2 i))\<rparr>"
    by (simp add: dot_product_m_def validate_vector_def validate_matching_sizes_def
                  dot_product_loop_m_sum)
next
  show "dot_product [] ([] :: 'a fvar list) = Inr \<lparr>val = 0, deriv = 0\<rparr>"
    by (simp add: dot_product_def validate_matching_sizes_def)
qed

theorem dot_product_value_and_derivative_witness:
  "dot_product [\<lparr>val = 2, deriv = 1\<rparr>, \<lparr>val = 3, deriv = 0\<rparr>]
               [\<lparr>val = 5, deriv = 0\<rparr>, \<lparr>val = 7, deriv = 1\<rparr>]
     = Inr \<lparr>val = (31::int), deriv = 8\<rparr>
   \<and> dot_product_m \<lparr>rows = 1, cols = 2, coeff = (\<lambda>i. \<lparr>val = int i + 2, deriv = 1\<rparr>)\<rparr>
                   \<lparr>rows = 2, cols = 1, coeff = (\<lambda>i. \<lparr>val = 5, deriv = int i\<rparr>)\<rparr>
     = Inr \<lparr>val = (25::int), deriv = 13\<rparr>"
  using dot_product_value_and_derivative
          [of "[\<lparr>val = 2, deriv = 1\<rparr>, \<lparr>val = 3, deriv = 0\<rparr>]"
              "[\<lparr>val = 5, deriv = 0\<rparr>, \<lparr>val = 7, deriv = (1::int)\<rparr>]"
              "\<lparr>rows = 1, cols = 2, coeff = (\<lambda>i. \<lparr>val = int i + 2, deriv = 1\<rparr>)\<rparr>"
              "\<lparr>rows = 2, cols = 1, coeff = (\<lambda>i. \<lparr>val = 5, deriv = int i\<rparr>)\<rparr>"]
  by (simp add: size_m_def lessThan_Suc numeral_2_eq_2)

subsection \<open>C2: the value of \<open>gumbel_log\<close>\<close>

text \<open>
  Claim C2, as the code has it. For \<open>y\<close>, \<open>mu\<close>, \<open>beta\<close> that pass validation,
  \<open>gumbel_log\<close> returns the sum over the broadcast index \<open>n\<close> of
  \<open>-log(beta[n]) - z_n - exp(-z_n)\<close> with \<open>z_n = (y[n] - mu[n]) / beta[n]\<close>, the term
  \<open>-log(beta[n])\<close> left out exactly when proportional-only mode excludes the summand
  of the scale (\<open>beta\<close> is then a constant). The claim stated this of every such call;
  the source returns 0.0 before the loop when the mode is proportional-only and no
  argument is differentiable, so the sum is returned by all other calls. For
  \<open>mu = 0\<close>, \<open>beta = 1\<close>, \<open>y = 0\<close> the full log-density is \<open>-1\<close>.
\<close>

theorem gumbel_log_value_amended:
  "(passes_validation y mu beta \<longrightarrow>
      logp (gumbel_log propto y mu beta policy) =
        (if include_summand propto
              [is_constant_struct y, is_constant_struct mu, is_constant_struct beta]
         then log_density (include_summand propto [is_constant_struct beta]) y mu beta
         else Fin 0))
   \<and> logp (gumbel_log False (Scalar c1 (Fin 0)) (Scalar c2 (Fin 0)) (Scalar c3 (Fin 1)) policy)
       = Fin (- 1)"
proof (intro conjI impI)
  assume "passes_validation y mu beta"
  then show "logp (gumbel_log propto y mu beta policy) =
        (if include_summand propto
              [is_constant_struct y, is_constant_struct mu, is_constant_struct beta]
         then log_density (include_summand propto [is_constant_struct beta]) y mu beta
         else Fin 0)"
    by (rule gumbel_log_value)
next
  have v: "passes_validation (Scalar c1 (Fin 0)) (Scalar c2 (Fin 0)) (Scalar c3 (Fin 1))"
    by (simp add: passes_validation_def max_size_def)
  show "logp (gumbel_log False (Scalar c1 (Fin 0)) (Scalar c2 (Fin 0)) (Scalar c3 (Fin 1)) policy)
       = Fin (- 1)"
    by (simp add: gumbel_log_value [OF v] include_summand_def log_density_def max_size_def
        log_density_term_def z_n_def minus_dbl_def)
qed

text \<open>
  A sequence \<open>y\<close> against scalars in proportional-only mode (the sum, without the
  logarithm), and the call with constants only (0.0).
\<close>

theorem gumbel_log_value_amended_witness:
  "passes_validation (Vector False [Fin 0, Fin 3]) (Scalar True (Fin 0)) (Scalar True (Fin 1))
   \<and> logp (gumbel_log True (Vector False [Fin 0, Fin 3]) (Scalar True (Fin 0))
             (Scalar True (Fin 1)) Default_policy)
       = Fin (- 1 + (- 3 - exp (- 3)))
   \<and> passes_validation (Scalar True (Fin 0)) (Scalar True (Fin 0)) (Scalar True (Fin 1))
   \<and> logp (gumbel_log True (Scalar True (Fin 0)) (Scalar True (Fin 0)) (Scalar True (Fin 1))
             Default_policy) = Fin 0"
  using gumbel_log_value_amended
          [of "Vector False [Fin 0, Fin 3]" "Scalar True (Fin 0)" "Scalar True (Fin 1)" True
              Default_policy]
        gumbel_log_value_amended
          [of "Scalar True (Fin 0)" "Scalar True (Fin 0)" "Scalar True (Fin 1)" True
              Default_policy]
  by (simp add: passes_validation_def max_size_def include_summand_def log_density_def
      log_density_term_def z_n_def minus_dbl_def zero_dbl_def lessThan_Suc numeral_2_eq_2)

text \<open>
  The claim as stated fails in proportional-only mode on constants: the arguments pass
  validation, the sum without \<open>-log(beta)\<close> is \<open>-1\<close>, and the call returns 0.0.
\<close>

theorem gumbel_log_value_counterexample:
  "passes_validation (Scalar True (Fin 0)) (Scalar True (Fin 0)) (Scalar True (Fin 1))
   \<and> logp (gumbel_log True (Scalar True (Fin 0)) (Scalar True (Fin 0)) (Scalar True (Fin 1))
             Default_policy)
       \<noteq> log_density (include_summand True [True])
             (Scalar True (Fin 0)) (Scalar True (Fin 0)) (Scalar True (Fin 1))"
  by (simp add: gumbel_eval)

subsection \<open>C3: the partial derivatives of \<open>gumbel_log\<close>\<close>

text \<open>
  On every validated input the buffers of \<open>y\<close> and of \<open>mu\<close> hold the analytic
  partial derivatives (lemmas \<open>gumbel_log_d_x1\<close> and \<open>gumbel_log_d_x2\<close>), and so does
  the buffer of \<open>beta\<close> when \<open>y\<close> is finite (lemma \<open>gumbel_log_d_x3\<close>, in the exact
  arithmetic of the model). An infinite \<open>y\<close> is not NaN and passes validation:
\<close>

lemma infinite_variate_passes_validation:
  "passes_validation (Scalar False PInf) (Scalar False (Fin 0)) (Scalar False (Fin 1))"
  by (simp add: passes_validation_def max_size_def)

text \<open>
  Claim C3. For \<open>y\<close>, \<open>mu\<close>, \<open>beta\<close> that pass validation the partial derivatives
  that \<open>gumbel_log\<close> accumulates are the analytic ones,
  \<open>-(1/beta[n]) * (1 - exp(-z_n))\<close> for \<open>y\<close>, \<open>(1/beta[n]) * (1 - exp(-z_n))\<close> for \<open>mu\<close>
  and \<open>(1/beta[n]) * (z_n * (1 - exp(-z_n)) - 1)\<close> for \<open>beta\<close>. The source misses the
  last one at \<open>y = +inf\<close>, \<open>mu = 0\<close>, \<open>beta = 1\<close>, all differentiable: there
  \<open>z = +inf\<close> and \<open>exp(-z) = 0\<close>, the buffers of \<open>y\<close> and \<open>mu\<close> hold the analytic
  \<open>-1\<close> and \<open>1\<close>, but the expression for \<open>beta\<close>,
  \<open>-inv_beta + z * inv_beta - scaled_diff * z\<close> with \<open>scaled_diff = 0\<close>, ends in the
  product \<open>0 * inf\<close>: the buffer holds NaN where the analytic value is \<open>+inf\<close>.
\<close>

theorem gumbel_log_scale_partial_at_infinity:
  "d_x1 (gumbel_log False (Scalar False PInf) (Scalar False (Fin 0)) (Scalar False (Fin 1))
          Default_policy) = [Fin (- 1)]
   \<and> dlogp_dy (Scalar False PInf) (Scalar False (Fin 0)) (Scalar False (Fin 1)) 0 = Fin (- 1)
   \<and> d_x2 (gumbel_log False (Scalar False PInf) (Scalar False (Fin 0)) (Scalar False (Fin 1))
          Default_policy) = [Fin 1]
   \<and> dlogp_dmu (Scalar False PInf) (Scalar False (Fin 0)) (Scalar False (Fin 1)) 0 = Fin 1
   \<and> d_x3 (gumbel_log False (Scalar False PInf) (Scalar False (Fin 0)) (Scalar False (Fin 1))
          Default_policy) = [NaN]
   \<and> dlogp_dbeta (Scalar False PInf) (Scalar False (Fin 0)) (Scalar False (Fin 1)) 0 = PInf"
  by (simp add: gumbel_eval)

subsection \<open>C4: a failed validation\<close>

text \<open>
  Claim C4. When a validation check of \<open>gumbel_log\<close> fails (an element of \<open>y\<close> is NaN,
  an element of \<open>mu\<close> is not finite, an element of \<open>beta\<close> is not strictly positive,
  or the sizes are inconsistent), the call returns the value of \<open>logp\<close> accumulated so
  far, which is 0.0 since the checks precede every summand, as a constant with no
  partial derivatives, and not a computed log-density. The checks are the ones
  modelled from the specification: they report the failure and leave \<open>logp\<close> as it
  was.
\<close>

theorem gumbel_log_failed_validation:
  "\<not> passes_validation y mu beta \<longrightarrow>
     gumbel_log propto y mu beta policy = constant_result (Fin 0)"
  by (simp add: gumbel_log_invalid)

text \<open>
  One call for each failure: \<open>y\<close> NaN, \<open>mu\<close> infinite, \<open>beta\<close> zero, \<open>beta\<close>
  negative, sequences of two and of three elements.
\<close>

theorem gumbel_log_failed_validation_witness:
  "\<not> passes_validation (Scalar False NaN) (Scalar True (Fin 0)) (Scalar True (Fin 1))
   \<and> gumbel_log False (Scalar False NaN) (Scalar True (Fin 0)) (Scalar True (Fin 1))
        Default_policy = \<lparr>logp = Fin 0, d_x1 = [], d_x2 = [], d_x3 = []\<rparr>
   \<and> \<not> passes_validation (Scalar False (Fin 0)) (Scalar True PInf) (Scalar True (Fin 1))
   \<and> gumbel_log False (Scalar False (Fin 0)) (Scalar True PInf) (Scalar True (Fin 1))
        Default_policy = \<lparr>logp = Fin 0, d_x1 = [], d_x2 = [], d_x3 = []\<rparr>
   \<and> \<not> passes_validation (Scalar False (Fin 0)) (Scalar True (Fin 0)) (Scalar True (Fin 0))
   \<and> gumbel_log False (Scalar False (Fin 0)) (Scalar True (Fin 0)) (Scalar True (Fin 0))
        Default_policy = \<lparr>logp = Fin 0, d_x1 = [], d_x2 = [], d_x3 = []\<rparr>
   \<and> \<not> passes_validation (Scalar False (Fin 0)) (Scalar True (Fin 0)) (Scalar True (Fin (- 2)))
   \<and> gumbel_log False (Scalar False (Fin 0)) (Scalar True (Fin 0)) (Scalar True (Fin (- 2)))
        Default_policy = \<lparr>logp = Fin 0, d_x1 = [], d_x2 = [], d_x3 = []\<rparr>
   \<and> \<not> passes_validation (Vector False [Fin 0, Fin 0]) (Vector True [Fin 0, Fin 0, Fin 0])
          (Scalar True (Fin 1))
   \<and> gumbel_log False (Vector False [Fin 0, Fin 0]) (Vector True [Fin 0, Fin 0, Fin 0])
        (Scalar True (Fin 1)) Default_policy = \<lparr>logp = Fin 0, d_x1 = [], d_x2 = [], d_x3 = []\<rparr>"
  using gumbel_log_failed_validation
          [of "Scalar False NaN" "Scalar True (Fin 0)" "Scalar True (Fin 1)" False Default_policy]
        gumbel_log_failed_validation
          [of "Scalar False (Fin 0)" "Scalar True PInf" "Scalar True (Fin 1)" False Default_policy]
        gumbel_log_failed_validation
          [of "Scalar False (Fin 0)" "Scalar True (Fin 0)" "Scalar True (Fin 0)" False Default_policy]
        gumbel_log_failed_validation
          [of "Scalar False (Fin 0)" "Scalar True (Fin 0)" "Scalar True (Fin (- 2))" False
              Default_policy]
        gumbel_log_failed_validation
          [of "Vector False [Fin 0, Fin 0]" "Vector True [Fin 0, Fin 0, Fin 0]"
              "Scalar True (Fin 1)" False Default_policy]
  by (simp add: passes_validation_def max_size_def constant_result_def)

subsection \<open>C5: the dot product with an explicit length\<close>

text \<open>
  Claim C5. For a length \<open>len\<close> that is at most the length of \<open>a\<close> and of \<open>b\<close>, the
  entry point with an explicit length returns what \<open>dot_product\<close> returns on the
  prefixes of length \<open>len\<close>, and it returns a value whether or not \<open>a\<close> and \<open>b\<close> have
  the same length: it validates no sizes. The same holds of the Eigen entry point on
  vector-shaped matrices.
\<close>

theorem dot_product_explicit_length:
  fixes a b :: "'a::{comm_monoid_add,times} fvar list" and m1 m2 :: "'a fvar matrix"
  shows "(len \<le> length a \<and> len \<le> length b \<longrightarrow>
            dot_product_length a b len = dot_product (take len a) (take len b)
          \<and> (\<exists>r. dot_product_length a b len = Inr r))
       \<and> ((rows m1 = 1 \<or> cols m1 = 1) \<and> (rows m2 = 1 \<or> cols m2 = 1)
            \<and> len \<le> size_m m1 \<and> len \<le> size_m m2 \<longrightarrow>
            dot_product_length_m m1 m2 len = dot_product_m (head_m m1 len) (head_m m2 len)
          \<and> (\<exists>r. dot_product_length_m m1 m2 len = Inr r))"
proof (intro conjI impI)
  assume h: "len \<le> length a \<and> len \<le> length b"
  then have l: "dot_product_length a b len =
      Inr \<lparr>val = (\<Sum>i<len. val (a ! i) * val (b ! i)),
           deriv = (\<Sum>i<len. deriv (a ! i) * val (b ! i) + val (a ! i) * deriv (b ! i))\<rparr>"
    by (simp add: dot_product_length_def dot_product_loop_sum)
  from h have r: "dot_product (take len a) (take len b) =
      Inr \<lparr>val = (\<Sum>i<len. val (a ! i) * val (b ! i)),
           deriv = (\<Sum>i<len. deriv (a ! i) * val (b ! i) + val (a ! i) * deriv (b ! i))\<rparr>"
    by (simp add: dot_product_def validate_matching_sizes_def dot_product_loop_sum min_absorb2)
  from l r show "dot_product_length a b len = dot_product (take len a) (take len b)" by simp
  from l show "\<exists>r. dot_product_length a b len = Inr r" by blast
next
  assume h: "(rows m1 = 1 \<or> cols m1 = 1) \<and> (rows m2 = 1 \<or> cols m2 = 1)
            \<and> len \<le> size_m m1 \<and> len \<le> size_m m2"
  then have l: "dot_product_length_m m1 m2 len =
     Inr \<lparr>val = (\<Sum>i<len. val (coeff m1 i) * val (coeff m2 i)),
          deriv = (\<Sum>i<len. deriv (coeff m1 i) * val (coeff m2 i)
                             + val (coeff m1 i) * deriv (coeff m2 i))\<rparr>"
    by (simp add: dot_product_length_m_def validate_vector_def dot_product_loop_m_sum)
  from h have r: "dot_product_m (head_m m1 len) (head_m m2 len) =
     Inr \<lparr>val = (\<Sum>i<len. val (coeff m1 i) * val (coeff m2 i)),
          deriv = (\<Sum>i<len. deriv (coeff m1 i) * val (coeff m2 i)
                             + val (coeff m1 i) * deriv (coeff m2 i))\<rparr>"
    by (simp add: dot_product_m_def validate_head_m validate_matching_sizes_def size_head_m
          dot_product_loop_m_sum coeff_head_m)
  from l r show "dot_product_length_m m1 m2 len = dot_product_m (head_m m1 len) (head_m m2 len)"
    by simp
  from l show "\<exists>r. dot_product_length_m m1 m2 len = Inr r" by blast
qed

text \<open>
  Sequences of three and of two elements with length 2: the explicit-length call
  returns the value of the prefixes, where the full-length call signals the mismatch.
\<close>

theorem dot_product_explicit_length_witness:
  "dot_product_length [\<lparr>val = 2, deriv = 1\<rparr>, \<lparr>val = 3, deriv = 0\<rparr>, \<lparr>val = 9, deriv = 9\<rparr>]
                      [\<lparr>val = 5, deriv = 0\<rparr>, \<lparr>val = 7, deriv = (1::int)\<rparr>] 2
     = dot_product (take 2 [\<lparr>val = 2, deriv = 1\<rparr>, \<lparr>val = 3, deriv = 0\<rparr>, \<lparr>val = 9, deriv = 9\<rparr>])
                   (take 2 [\<lparr>val = 5, deriv = 0\<rparr>, \<lparr>val = 7, deriv = 1\<rparr>])
   \<and> dot_product_length [\<lparr>val = 2, deriv = 1\<rparr>, \<lparr>val = 3, deriv = 0\<rparr>, \<lparr>val = 9, deriv = 9\<rparr>]
                      [\<lparr>val = 5, deriv = 0\<rparr>, \<lparr>val = 7, deriv = 1\<rparr>] 2
     = Inr \<lparr>val = (31::int), deriv = 8\<rparr>
   \<and> dot_product [\<lparr>val = 2, deriv = 1\<rparr>, \<lparr>val = 3, deriv = 0\<rparr>, \<lparr>val = 9, deriv = 9\<rparr>]
                 [\<lparr>val = 5, deriv = 0\<rparr>, \<lparr>val = 7, deriv = (1::int)\<rparr>]
     = Inl ShapeMismatch
   \<and> dot_product_length_m
        \<lparr>rows = 1, cols = 3, coeff = (\<lambda>i. \<lparr>val = int i + 2, deriv = 1\<rparr>)\<rparr>
        \<lparr>rows = 2, cols = 1, coeff = (\<lambda>i. \<lparr>val = 5, deriv = int i\<rparr>)\<rparr> 2
     = dot_product_m
        (head_m \<lparr>rows = 1, cols = 3, coeff = (\<lambda>i. \<lparr>val = int i + 2, deriv = 1\<rparr>)\<rparr> 2)
        (head_m \<lparr>rows = 2, cols = 1, coeff = (\<lambda>i. \<lparr>val = 5, deriv = int i\<rparr>)\<rparr> 2)
   \<and> dot_product_length_m
        \<lparr>rows = 1, cols = 3, coeff = (\<lambda>i. \<lparr>val = int i + 2, deriv = 1\<rparr>)\<rparr>
        \<lparr>rows = 2, cols = 1, coeff = (\<lambda>i. \<lparr>val = 5, deriv = int i\<rparr>)\<rparr> 2
     = Inr \<lparr>val = (25::int), deriv = 13\<rparr>"
  using dot_product_explicit_length
          [of 2 "[\<lparr>val = 2, deriv = 1\<rparr>, \<lparr>val = 3, deriv = 0\<rparr>, \<lparr>val = 9, deriv = 9\<rparr>]"
              "[\<lparr>val = 5, deriv = 0\<rparr>, \<lparr>val = 7, deriv = (1::int)\<rparr>]"
              "\<lparr>rows = 1, cols = 3, coeff = (\<lambda>i. \<lparr>val = int i + 2, deriv = 1\<rparr>)\<rparr>"
              "\<lparr>rows = 2, cols = 1, coeff = (\<lambda>i. \<lparr>val = 5, deriv = int i\<rparr>)\<rparr>"]
  by (simp add: size_m_def dot_product_def validate_matching_sizes_def dot_product_m_def
      validate_vector_def head_m_def coeff_at_def at_v_def fvar_times_def fvar_plus_assign_def
      numeral_2_eq_2)

subsection \<open>C6: shape mismatch\<close>

text \<open>
  Claim C6. The full-length \<open>dot_product\<close> on sequences of different lengths, or on
  matrices that are not both vector-shaped or differ in size, signals
  \<open>ShapeMismatch\<close>: the validation precedes the loop, so the outcome is the failure
  and never a value.
\<close>

theorem dot_product_shape_mismatch:
  fixes a b :: "'a::{zero,plus,times} fvar list" and m1 m2 :: "'a fvar matrix"
  shows "(length a \<noteq> length b \<longrightarrow> dot_product a b = Inl ShapeMismatch)
       \<and> (\<not> (rows m1 = 1 \<or> cols m1 = 1) \<or> \<not> (rows m2 = 1 \<or> cols m2 = 1)
            \<or> size_m m1 \<noteq> size_m m2 \<longrightarrow> dot_product_m m1 m2 = Inl ShapeMismatch)"
  by (auto simp: dot_product_def dot_product_m_def validate_matching_sizes_def
                 validate_vector_def)

text \<open>Lengths 2 and 1; a 2 by 2 matrix; vector-shaped matrices of sizes 2 and 3.\<close>

theorem dot_product_shape_mismatch_witness:
  "dot_product [\<lparr>val = 2, deriv = 1\<rparr>, \<lparr>val = 3, deriv = 0\<rparr>] [\<lparr>val = 5, deriv = (0::int)\<rparr>]
     = Inl ShapeMismatch
   \<and> dot_product_m \<lparr>rows = 2, cols = 2, coeff = (\<lambda>i. \<lparr>val = int i, deriv = 1\<rparr>)\<rparr>
                   \<lparr>rows = 4, cols = 1, coeff = (\<lambda>i. \<lparr>val = 5, deriv = int i\<rparr>)\<rparr>
     = Inl ShapeMismatch
   \<and> dot_product_m \<lparr>rows = 1, cols = 2, coeff = (\<lambda>i. \<lparr>val = int i, deriv = 1\<rparr>)\<rparr>
                   \<lparr>rows = 3, cols = 1, coeff = (\<lambda>i. \<lparr>val = 5, deriv = int i\<rparr>)\<rparr>
     = Inl ShapeMismatch"
  using dot_product_shape_mismatch
          [of "[\<lparr>val = 2, deriv = 1\<rparr>, \<lparr>val = 3, deriv = 0\<rparr>]" "[\<lparr>val = 5, deriv = (0::int)\<rparr>]"
              "\<lparr>rows = 2, cols = 2, coeff = (\<lambda>i. \<lparr>val = int i, deriv = 1\<rparr>)\<rparr>"
              "\<lparr>rows = 4, cols = 1, coeff = (\<lambda>i. \<lparr>val = 5, deriv = int i\<rparr>)\<rparr>"]
        dot_product_shape_mismatch
          [of "[\<lparr>val = 2, deriv = 1\<rparr>, \<lparr>val = 3, deriv = 0\<rparr>]" "[\<lparr>val = 5, deriv = (0::int)\<rparr>]"
              "\<lparr>rows = 1, cols = 2, coeff = (\<lambda>i. \<lparr>val = int i, deriv = 1\<rparr>)\<rparr>"
              "\<lparr>rows = 3, cols = 1, coeff = (\<lambda>i. \<lparr>val = 5, deriv = int i\<rparr>)\<rparr>"]
  by (simp add: size_m_def)

subsection \<open>C7: the value of \<open>gumbel_cdf\<close>\<close>

text \<open>
  Claim C7. For \<open>y\<close>, \<open>mu\<close>, \<open>beta\<close> that pass validation, \<open>gumbel_cdf\<close> returns the
  product over the broadcast index \<open>n\<close> of \<open>exp(-exp(-(y[n] - mu[n]) / beta[n]))\<close>. The
  accumulator starts at 1: the loop multiplies the value it is given by the factors, and
  the function gives it 1. No buffer of partial derivatives exists in the function; its
  result is the value.
\<close>

theorem gumbel_cdf_product:
  "passes_validation y mu beta \<longrightarrow>
     gumbel_cdf y mu beta policy = cdf_product y mu beta
     \<and> gumbel_cdf_loop y mu beta (max_size y mu beta) cdf = cdf * cdf_product y mu beta"
  by (simp add: gumbel_cdf_valid gumbel_cdf_loop_product cdf_product_def)

text \<open>A sequence \<open>y = (0, 1)\<close> against \<open>mu = 0\<close> and \<open>beta = 1\<close>.\<close>

theorem gumbel_cdf_product_witness:
  "passes_validation (Vector True [Fin 0, Fin 1]) (Scalar True (Fin 0)) (Scalar True (Fin 1))
   \<and> gumbel_cdf (Vector True [Fin 0, Fin 1]) (Scalar True (Fin 0)) (Scalar True (Fin 1))
        Default_policy
      = Fin (exp (- 1) * exp (- exp (- 1)))
   \<and> gumbel_cdf_loop (Vector True [Fin 0, Fin 1]) (Scalar True (Fin 0)) (Scalar True (Fin 1))
        2 (Fin 1)
      = Fin (exp (- 1) * exp (- exp (- 1)))"
  using gumbel_cdf_product
          [of "Vector True [Fin 0, Fin 1]" "Scalar True (Fin 0)" "Scalar True (Fin 1)"
              Default_policy "Fin 1"]
  by (simp add: passes_validation_def max_size_def cdf_product_def minus_dbl_def one_dbl_def
      lessThan_Suc numeral_2_eq_2)

subsection \<open>C8: full mode against proportional-only mode\<close>

text \<open>
  Claim C8, as the code has it. For \<open>y\<close>, \<open>mu\<close>, \<open>beta\<close> that pass validation, with
  \<open>beta\<close> a constant and \<open>y\<close> or \<open>mu\<close> differentiable, the result in full mode is the
  result in proportional-only mode plus the sum over the broadcast index of
  \<open>-log(beta[n])\<close>, which is \<open>-log(beta)\<close> when the three arguments are scalars. When
  \<open>beta\<close> is differentiable the two modes return the same, and when no argument is
  differentiable proportional-only mode returns 0.0. The claim stated the difference
  \<open>-log(beta)\<close> for every validated call.
\<close>

theorem gumbel_log_propto_difference_amended:
  "passes_validation y mu beta \<longrightarrow>
     (is_constant_struct beta \<and> \<not> (is_constant_struct y \<and> is_constant_struct mu) \<longrightarrow>
        logp (gumbel_log False y mu beta policy)
          = logp (gumbel_log True y mu beta policy)
            + (\<Sum>n<max_size y mu beta. - log_dbl (vector_view beta n)))
   \<and> (is_constant_struct beta \<and> \<not> (is_constant_struct y \<and> is_constant_struct mu)
        \<and> \<not> is_vector y \<and> \<not> is_vector mu \<and> \<not> is_vector beta \<longrightarrow>
        logp (gumbel_log False y mu beta policy)
          = logp (gumbel_log True y mu beta policy) + (- log_dbl (vector_view beta 0)))
   \<and> (\<not> is_constant_struct beta \<longrightarrow>
        gumbel_log False y mu beta policy = gumbel_log True y mu beta policy)
   \<and> (is_constant_struct y \<and> is_constant_struct mu \<and> is_constant_struct beta \<longrightarrow>
        gumbel_log True y mu beta policy = constant_result (Fin 0))"
proof (intro impI conjI)
  assume v: "passes_validation y mu beta"
  {
    assume c: "is_constant_struct beta \<and> \<not> (is_constant_struct y \<and> is_constant_struct mu)"
    then show "logp (gumbel_log False y mu beta policy)
          = logp (gumbel_log True y mu beta policy)
            + (\<Sum>n<max_size y mu beta. - log_dbl (vector_view beta n))"
      by (auto simp: gumbel_log_value [OF v] include_summand_def log_density_split)
  }
  {
    assume c: "is_constant_struct beta \<and> \<not> (is_constant_struct y \<and> is_constant_struct mu)
        \<and> \<not> is_vector y \<and> \<not> is_vector mu \<and> \<not> is_vector beta"
    then have "max_size y mu beta = 1"
      by (cases y; cases mu; cases beta) (simp_all add: max_size_def)
    with c show "logp (gumbel_log False y mu beta policy)
          = logp (gumbel_log True y mu beta policy) + (- log_dbl (vector_view beta 0))"
      by (auto simp: gumbel_log_value [OF v] include_summand_def log_density_split)
  }
  {
    assume "\<not> is_constant_struct beta"
    then show "gumbel_log False y mu beta policy = gumbel_log True y mu beta policy"
      by (simp add: gumbel_log_propto_irrelevant)
  }
  {
    assume "is_constant_struct y \<and> is_constant_struct mu \<and> is_constant_struct beta"
    then show "gumbel_log True y mu beta policy = constant_result (Fin 0)"
      by (simp add: gumbel_log_valid [OF v] include_summand_def)
  }
qed

text \<open>Scalars \<open>y = 0\<close> differentiable, \<open>mu = 0\<close> and \<open>beta = 2\<close> constants.\<close>

theorem gumbel_log_propto_difference_amended_witness:
  "passes_validation (Scalar False (Fin 0)) (Scalar True (Fin 0)) (Scalar True (Fin 2))
   \<and> logp (gumbel_log False (Scalar False (Fin 0)) (Scalar True (Fin 0)) (Scalar True (Fin 2))
             Default_policy) = Fin (- ln 2 - 1)
   \<and> logp (gumbel_log True (Scalar False (Fin 0)) (Scalar True (Fin 0)) (Scalar True (Fin 2))
             Default_policy) = Fin (- 1)
   \<and> logp (gumbel_log False (Scalar False (Fin 0)) (Scalar True (Fin 0)) (Scalar True (Fin 2))
             Default_policy)
       = logp (gumbel_log True (Scalar False (Fin 0)) (Scalar True (Fin 0)) (Scalar True (Fin 2))
                 Default_policy) + (- log_dbl (Fin 2))"
  using gumbel_log_propto_difference_amended
          [of "Scalar False (Fin 0)" "Scalar True (Fin 0)" "Scalar True (Fin 2)" Default_policy]
  by (simp add: gumbel_eval)

text \<open>
  The claim as stated fails on constants \<open>y = 0\<close>, \<open>mu = 0\<close>, \<open>beta = 2\<close>: full mode
  returns \<open>-log 2 - 1\<close>, proportional-only mode 0.0, and the difference is not
  \<open>-log 2\<close>.
\<close>

theorem gumbel_log_propto_difference_counterexample:
  "passes_validation (Scalar True (Fin 0)) (Scalar True (Fin 0)) (Scalar True (Fin 2))
   \<and> logp (gumbel_log False (Scalar True (Fin 0)) (Scalar True (Fin 0)) (Scalar True (Fin 2))
             Default_policy)
       - logp (gumbel_log True (Scalar True (Fin 0)) (Scalar True (Fin 0)) (Scalar True (Fin 2))
                 Default_policy)
       \<noteq> - log_dbl (Fin 2)"
  by (simp add: gumbel_eval)

subsection \<open>C9: arguments of length zero\<close>

text \<open>
  Claim C9. When one of the arguments has length zero, \<open>gumbel_log\<close> returns 0.0 and
  \<open>gumbel_cdf\<close> returns 1.0, whatever the other arguments hold: no check and no
  iteration is run, and nothing signals a failure.
\<close>

theorem zero_length_identity:
  "length_op y = 0 \<or> length_op mu = 0 \<or> length_op beta = 0 \<longrightarrow>
     gumbel_log propto y mu beta policy = constant_result (Fin 0)
     \<and> gumbel_cdf y mu beta policy = Fin 1"
  by (auto simp: gumbel_log_def gumbel_cdf_def)

text \<open>An empty \<open>y\<close> with a NaN location and a zero scale, which no check gets to see.\<close>

theorem zero_length_identity_witness:
  "length_op (Vector False []) = 0
   \<and> gumbel_log True (Vector False []) (Scalar True NaN) (Scalar True (Fin 0)) Default_policy
       = \<lparr>logp = Fin 0, d_x1 = [], d_x2 = [], d_x3 = []\<rparr>
   \<and> gumbel_cdf (Vector False []) (Scalar True NaN) (Scalar True (Fin 0)) Default_policy = Fin 1"
  using zero_length_identity
          [of "Vector False []" "Scalar True NaN" "Scalar True (Fin 0)" True Default_policy]
  by (simp add: constant_result_def)

subsection \<open>C10: the overloads without the proportionality flag\<close>

text \<open>
  Claim C10. The overloads of \<open>gumbel_log\<close> that take no proportionality flag, with and
  without a policy, call \<open>gumbel_log<false>\<close>: on validated arguments they return the
  log-density with the term \<open>-log(beta[n])\<close>, also when every argument is a constant.
\<close>

theorem gumbel_log_without_flag:
  "gumbel_log_policy y mu beta policy = gumbel_log False y mu beta policy
   \<and> gumbel_log_default y mu beta = gumbel_log False y mu beta Default_policy
   \<and> (passes_validation y mu beta \<longrightarrow>
        logp (gumbel_log_policy y mu beta policy) = log_density True y mu beta
        \<and> logp (gumbel_log_default y mu beta) = log_density True y mu beta)"
  by (simp add: gumbel_log_policy_def gumbel_log_default_def gumbel_log_value include_summand_def)

text \<open>
  Constants \<open>y = 0\<close>, \<open>mu = 0\<close>, \<open>beta = 2\<close>: both overloads return \<open>-log 2 - 1\<close>,
  where the proportional-only call returns 0.0.
\<close>

theorem gumbel_log_without_flag_witness:
  "passes_validation (Scalar True (Fin 0)) (Scalar True (Fin 0)) (Scalar True (Fin 2))
   \<and> logp (gumbel_log_default (Scalar True (Fin 0)) (Scalar True (Fin 0)) (Scalar True (Fin 2)))
       = Fin (- ln 2 - 1)
   \<and> logp (gumbel_log_policy (Scalar True (Fin 0)) (Scalar True (Fin 0)) (Scalar True (Fin 2))
             Default_policy) = Fin (- ln 2 - 1)
   \<and> logp (gumbel_log True (Scalar True (Fin 0)) (Scalar True (Fin 0)) (Scalar True (Fin 2))
             Default_policy) = Fin 0"
  using gumbel_log_without_flag
          [of "Scalar True (Fin 0)" "Scalar True (Fin 0)" "Scalar True (Fin 2)" Default_policy]
  by (simp add: gumbel_eval)

end
